theory Spec2Isabelle
  imports Complex_Main "HOL-Library.Char_ord" "HOL-Library.List_Lexorder"
begin

section \<open>TradeMaxer: the trading engine and the IPC channel\<close>

text \<open>
  A shallow embedding of \<^verbatim>\<open>trading_engine.cpp\<close> / \<^verbatim>\<open>trading_engine.h\<close> (class
  \<^verbatim>\<open>TradingEngine\<close>, struct \<^verbatim>\<open>Portfolio\<close>, class \<^verbatim>\<open>PaperTradingSimulator\<close>),
  of the structs of \<^verbatim>\<open>data_types.h\<close> and of \<^verbatim>\<open>ipc_manager.cpp\<close>.

  Conventions of the embedding:
  \<^item> a C++ \<^verbatim>\<open>double\<close> is a HOL \<open>real\<close>: arithmetic is exact, rounding is not modelled.
    Where the source divides and then compares, the comparison is written out for a
    zero divisor as IEEE arithmetic decides it (see \<open>quotient_gt\<close>, \<open>quotient_ge\<close>);
  \<^item> a \<^verbatim>\<open>std::map<std::string, V>\<close> is the list of its entries in ascending key order;
  \<^item> member functions take the engine as their first argument and return the new engine;
  \<^item> the clock (\<^verbatim>\<open>std::time\<close>, \<^verbatim>\<open>system_clock::now\<close>) is an argument \<open>now\<close>;
  \<^item> the lines written to \<^verbatim>\<open>std::cout\<close> and \<^verbatim>\<open>std::cerr\<close> are appended to the field
    \<open>console\<close>, one \<open>event\<close> per line;
  \<^item> the calls on \<^verbatim>\<open>db_manager\<close> (write-through to the store) do not change the engine and
    are left out.
\<close>

subsection \<open>std::map as a key-ordered entry list\<close>

type_synonym 'v cmap = "(string \<times> 'v) list"

fun map_find :: "string \<Rightarrow> 'v cmap \<Rightarrow> 'v option" where
  "map_find k [] = None"
| "map_find k ((k', v) # xs) = (if k = k' then Some v else map_find k xs)"

text \<open>\<^verbatim>\<open>m[k] = v\<close>: overwrite the entry of \<open>k\<close>, or insert it at its place in key order.\<close>

fun map_assign :: "string \<Rightarrow> 'v \<Rightarrow> 'v cmap \<Rightarrow> 'v cmap" where
  "map_assign k v [] = [(k, v)]"
| "map_assign k v ((k', v') # xs) =
     (if k = k' then (k, v) # xs
      else if k < k' then (k, v) # (k', v') # xs
      else (k', v') # map_assign k v xs)"

fun map_erase :: "string \<Rightarrow> 'v cmap \<Rightarrow> 'v cmap" where
  "map_erase k [] = []"
| "map_erase k ((k', v) # xs) = (if k = k' then map_erase k xs else (k', v) # map_erase k xs)"

subsection \<open>Data model (data\_types.h, trading\_engine.h)\<close>

record position =
  symbol :: string
  quantity :: real
  entry_price :: real
  current_price :: real
  unrealized_pnl :: real
  entry_time :: nat

record order =
  order_id :: string
  order_symbol :: string
  side :: string
  order_quantity :: real
  price :: real
  order_type :: string
  status :: string
  timestamp :: nat

record trading_signal =
  signal_symbol :: string
  confidence :: real
  action :: string
  suggested_position_size :: real

datatype TradingMode = PAPER | LIVE

record portfolio =
  cash_balance :: real
  total_value :: real
  positions :: "position cmap"

datatype event =
    InvalidQuantity real
  | PositionSizeExceeds real real
  | InsufficientFunds real real
  | DrawdownExceeded
  | RiskRejected
  | OrderFilled string real
  | ProcessingSignal string string real
  | SizeTooSmall
  | Holding string
  | StopLossTriggered string real
  | TakeProfitTriggered string real

record engine =
  mode :: TradingMode
  pf :: portfolio
  max_position_size :: real
  max_drawdown :: real
  stop_loss_percentage :: real
  take_profit_percentage :: real
  initial_balance :: real
  peak_balance :: real
  pending_orders :: "order cmap"
  filled_orders :: "order cmap"
  order_counter :: nat
  console :: "event list"

text \<open>The constructor \<^verbatim>\<open>TradingEngine(mode, initial_balance)\<close>.\<close>

definition TradingEngine :: "TradingMode \<Rightarrow> real \<Rightarrow> engine" where
  "TradingEngine m bal =
     \<lparr> mode = m,
       pf = \<lparr> cash_balance = bal, total_value = bal, positions = [] \<rparr>,
       max_position_size = 5000,
       max_drawdown = 0.20,
       stop_loss_percentage = 0.02,
       take_profit_percentage = 0.05,
       initial_balance = bal,
       peak_balance = bal,
       pending_orders = [],
       filled_orders = [],
       order_counter = 0,
       console = [] \<rparr>"

text \<open>\<^verbatim>\<open>Portfolio::getEquity\<close>: the loop adds the positions' values to the cash, in key order.\<close>

definition getEquity :: "portfolio \<Rightarrow> real" where
  "getEquity p =
     foldl (\<lambda>equity (symb, pos). equity + quantity pos * current_price pos)
       (cash_balance p) (positions p)"

subsection \<open>Comparing a quotient of doubles\<close>

text \<open>
  \<open>quotient_gt a b c\<close> is the C++ test \<^verbatim>\<open>a / b > c\<close> and \<open>quotient_ge a b c\<close> the test
  \<^verbatim>\<open>a / b >= c\<close>, for a finite \<open>c\<close>. With \<open>b = 0\<close> the IEEE quotient is \<open>+inf\<close> when
  \<open>a > 0\<close>, \<open>-inf\<close> when \<open>a < 0\<close> and NaN when \<open>a = 0\<close>, so the test holds exactly when
  \<open>a > 0\<close> (HOL's own \<open>a / 0\<close> is \<open>0\<close>).
\<close>

definition quotient_gt :: "real \<Rightarrow> real \<Rightarrow> real \<Rightarrow> bool" where
  "quotient_gt a b c = (if b = 0 then 0 < a else c < a / b)"

definition quotient_ge :: "real \<Rightarrow> real \<Rightarrow> real \<Rightarrow> bool" where
  "quotient_ge a b c = (if b = 0 then 0 < a else c \<le> a / b)"

subsection \<open>Order identifiers\<close>

definition digit_char :: "nat \<Rightarrow> char" where
  "digit_char d = ''0123456789'' ! d"

text \<open>\<^verbatim>\<open>std::to_string\<close> on a non-negative integer.\<close>

function to_string :: "nat \<Rightarrow> string" where
  "to_string n =
     (if n < 10 then [digit_char n] else to_string (n div 10) @ [digit_char (n mod 10)])"
  by pat_completeness auto
termination
  by (relation "measure id") auto

declare to_string.simps [simp del]

definition generateOrderId :: "engine \<Rightarrow> nat \<Rightarrow> string \<times> engine" where
  "generateOrderId e now =
     (let order_num = order_counter e + 1
      in (''ORD_'' @ to_string now @ ''_'' @ to_string order_num,
          e\<lparr>order_counter := order_num\<rparr>))"

subsection \<open>PaperTradingSimulator\<close>

definition slippage_rate :: real where "slippage_rate = 0.001"
definition spread_rate :: real where "spread_rate = 0.0005"
definition fill_probability :: real where "fill_probability = 0.95"

definition simulateSlippage :: "real \<Rightarrow> real \<Rightarrow> string \<Rightarrow> real" where
  "simulateSlippage price0 qty sd =
     (let slippage = price0 * slippage_rate * (1 + qty / 100)
      in if sd = ''BUY'' then price0 + slippage else price0 - slippage)"

definition simulateSpread :: "real \<Rightarrow> real" where
  "simulateSpread price0 = price0 * (1 + spread_rate)"

text \<open>
  \<^verbatim>\<open>simulateOrderFill\<close>: \<open>draw\<close> is the value of \<^verbatim>\<open>dis(gen)\<close>, the uniform random draw
  from \<open>[0, 1)\<close> that the limit-order branches compare with the fill probability.
\<close>

definition simulateOrderFill :: "order \<Rightarrow> real \<Rightarrow> real \<Rightarrow> bool" where
  "simulateOrderFill ord market_price draw =
     (if order_type ord = ''LIMIT'' \<and> side ord = ''BUY'' \<and> market_price \<le> price ord
        then draw < fill_probability
      else if order_type ord = ''LIMIT'' \<and> side ord = ''SELL'' \<and> price ord \<le> market_price
        then draw < fill_probability
      else order_type ord = ''MARKET'')"

subsection \<open>Risk checks\<close>

text \<open>
  \<^verbatim>\<open>checkRiskLimits\<close> returns its verdict together with the line it writes to
  \<^verbatim>\<open>std::cerr\<close> when it rejects: the three checks run in this order and the first that
  fails returns.
\<close>

definition checkRiskLimits :: "engine \<Rightarrow> string \<Rightarrow> real \<Rightarrow> real \<Rightarrow> bool \<times> event list" where
  "checkRiskLimits e symb qty price0 =
     (let position_value = qty * price0
      in if max_position_size e < position_value
           then (False, [PositionSizeExceeds position_value (max_position_size e)])
         else if cash_balance (pf e) < position_value
           then (False, [InsufficientFunds position_value (cash_balance (pf e))])
         else if quotient_gt (peak_balance e - getEquity (pf e)) (peak_balance e) (max_drawdown e)
           then (False, [DrawdownExceeded])
         else (True, []))"

subsection \<open>Fills and the portfolio\<close>

text \<open>The local \<^verbatim>\<open>realized_pnl\<close> of the SELL branch of \<^verbatim>\<open>updatePortfolio\<close>.\<close>

definition realized_pnl :: "order \<Rightarrow> position \<Rightarrow> real" where
  "realized_pnl ord pos = order_quantity ord * (price ord - entry_price pos)"

definition updatePortfolio :: "engine \<Rightarrow> nat \<Rightarrow> order \<Rightarrow> engine" where
  "updatePortfolio e now ord =
     (if side ord = ''BUY'' then
        (let p1 = (pf e)\<lparr>cash_balance := cash_balance (pf e) - order_quantity ord * price ord\<rparr>
         in case map_find (order_symbol ord) (positions p1) of
              Some pos \<Rightarrow>
                (let total_cost = quantity pos * entry_price pos + order_quantity ord * price ord;
                     qty = quantity pos + order_quantity ord;
                     pos' = pos\<lparr>quantity := qty, entry_price := total_cost / qty,
                               current_price := price ord\<rparr>
                 in e\<lparr>pf := p1\<lparr>positions := map_assign (order_symbol ord) pos' (positions p1)\<rparr>\<rparr>)
            | None \<Rightarrow>
                (let pos = \<lparr> symbol = order_symbol ord, quantity = order_quantity ord,
                             entry_price = price ord, current_price = price ord,
                             unrealized_pnl = 0, entry_time = now \<rparr>
                 in e\<lparr>pf := p1\<lparr>positions := map_assign (order_symbol ord) pos (positions p1)\<rparr>\<rparr>))
      else if side ord = ''SELL'' then
        (case map_find (order_symbol ord) (positions (pf e)) of
           Some pos \<Rightarrow>
             (let pnl = realized_pnl ord pos;
                  p1 = (pf e)\<lparr>cash_balance := cash_balance (pf e) + order_quantity ord * price ord\<rparr>;
                  pos' = pos\<lparr>quantity := quantity pos - order_quantity ord\<rparr>;
                  p2 = (if quantity pos' \<le> 0
                        then p1\<lparr>positions := map_erase (order_symbol ord) (positions p1)\<rparr>
                        else p1\<lparr>positions := map_assign (order_symbol ord) pos' (positions p1)\<rparr>);
                  current_equity = getEquity p2
              in e\<lparr>pf := p2,
                    peak_balance :=
                      (if peak_balance e < current_equity then current_equity else peak_balance e)\<rparr>)
         | None \<Rightarrow> e)
      else e)"

definition executeMarketOrder :: "engine \<Rightarrow> nat \<Rightarrow> order \<Rightarrow> real \<Rightarrow> engine" where
  "executeMarketOrder e now ord market_price =
     (let ord' = ord\<lparr>price := market_price, status := ''FILLED''\<rparr>;
          e1 = updatePortfolio e now ord'
      in e1\<lparr>pending_orders := map_erase (order_id ord') (pending_orders e1),
            filled_orders := map_assign (order_id ord') ord' (filled_orders e1),
            console := console e1 @ [OrderFilled (order_id ord') market_price]\<rparr>)"

text \<open>
  Modelled from the spec: \<^verbatim>\<open>TradingEngine::executeLimitOrder\<close> is declared in
  \<^verbatim>\<open>trading_engine.h\<close> and called by \<^verbatim>\<open>simulateFill\<close>, but its body is not part of the
  sources. The spec lets a limit order that fills take the same transition as a market
  order (FILLED, then \<^verbatim>\<open>updatePortfolio\<close>), at the price it is called with.
\<close>

definition executeLimitOrder :: "engine \<Rightarrow> nat \<Rightarrow> order \<Rightarrow> real \<Rightarrow> engine" where
  "executeLimitOrder e now ord limit_price = executeMarketOrder e now ord limit_price"

definition simulateFill :: "engine \<Rightarrow> nat \<Rightarrow> real \<Rightarrow> order \<Rightarrow> real \<Rightarrow> engine" where
  "simulateFill e now draw ord market_price =
     (let fill_price = simulateSpread
                         (simulateSlippage market_price (order_quantity ord) (side ord))
      in if order_type ord = ''MARKET'' then executeMarketOrder e now ord fill_price
         else if order_type ord = ''LIMIT'' then
           (if simulateOrderFill ord market_price draw
            then executeLimitOrder e now ord (price ord) else e)
         else e)"

subsection \<open>Placing an order\<close>

text \<open>
  \<^verbatim>\<open>placeOrder\<close> returns the order identifier, or the empty string for a rejection.
  The paper-mode fill of a market order makes no random draw; \<open>simulateFill\<close> is given
  \<open>0\<close> there.
\<close>

definition placeOrder ::
  "engine \<Rightarrow> nat \<Rightarrow> string \<Rightarrow> string \<Rightarrow> real \<Rightarrow> string \<Rightarrow> real \<Rightarrow> string \<times> engine" where
  "placeOrder e now symb sd qty otype price0 =
     (if qty \<le> 0 then ('''', e\<lparr>console := console e @ [InvalidQuantity qty]\<rparr>)
      else case checkRiskLimits e symb qty price0 of
        (False, msgs) \<Rightarrow> ('''', e\<lparr>console := console e @ msgs @ [RiskRejected]\<rparr>)
      | (True, msgs) \<Rightarrow>
          (case generateOrderId (e\<lparr>console := console e @ msgs\<rparr>) now of
             (oid, e1) \<Rightarrow>
               (let ord = \<lparr> order_id = oid, order_symbol = symb, side = sd,
                            order_quantity = qty, price = price0, order_type = otype,
                            status = ''PENDING'', timestamp = now \<rparr>;
                    e2 = e1\<lparr>pending_orders := map_assign oid ord (pending_orders e1)\<rparr>
                in (oid,
                    if mode e2 = PAPER \<and> otype = ''MARKET''
                    then simulateFill e2 now 0 ord (if 0 < price0 then price0 else 100000)
                    else e2))))"

subsection \<open>Loading, signals, stop-loss and take-profit\<close>

text \<open>\<^verbatim>\<open>initialize\<close>: the open positions read back from the store, each under its symbol.\<close>

definition initialize :: "engine \<Rightarrow> position list \<Rightarrow> engine" where
  "initialize e db_positions =
     e\<lparr>pf := (pf e)\<lparr>positions :=
          foldl (\<lambda>m pos. map_assign (symbol pos) pos m) (positions (pf e)) db_positions\<rparr>\<rparr>"

definition calculatePositionSize :: "engine \<Rightarrow> trading_signal \<Rightarrow> real" where
  "calculatePositionSize e signal =
     (let available_capital = cash_balance (pf e);
          base_size = suggested_position_size signal;
          adjusted_size = base_size * confidence signal;
          adjusted_size = min adjusted_size (available_capital * 0.95)
      in min adjusted_size (max_position_size e))"

text \<open>The two calls of \<^verbatim>\<open>placeOrder\<close> leave the price to its default \<^verbatim>\<open>0.0\<close>.\<close>

definition processTradingSignal :: "engine \<Rightarrow> nat \<Rightarrow> trading_signal \<Rightarrow> engine" where
  "processTradingSignal e now signal =
     (let e1 = e\<lparr>console := console e @
                 [ProcessingSignal (signal_symbol signal) (action signal) (confidence signal)]\<rparr>;
          position_size = calculatePositionSize e1 signal
      in if position_size \<le> 0 then e1\<lparr>console := console e1 @ [SizeTooSmall]\<rparr>
         else
           (let pos_it = map_find (signal_symbol signal) (positions (pf e1));
                has_position = (case pos_it of Some pos \<Rightarrow> 0 < quantity pos | None \<Rightarrow> False)
            in if action signal = ''BUY'' \<and> \<not> has_position then
                 snd (placeOrder e1 now (signal_symbol signal) ''BUY''
                        (position_size / 100000) ''MARKET'' 0)
               else if action signal = ''SELL'' \<and> has_position then
                 (case pos_it of
                    Some pos \<Rightarrow>
                      snd (placeOrder e1 now (signal_symbol signal) ''SELL''
                             (quantity pos) ''MARKET'' 0)
                  | None \<Rightarrow> e1)
               else if action signal = ''HOLD'' then
                 e1\<lparr>console := console e1 @ [Holding (signal_symbol signal)]\<rparr>
               else e1))"

definition applyStopLoss :: "engine \<Rightarrow> nat \<Rightarrow> position \<Rightarrow> real \<Rightarrow> engine" where
  "applyStopLoss e now pos cur =
     (if quotient_ge (entry_price pos - cur) (entry_price pos) (stop_loss_percentage e)
      then snd (placeOrder (e\<lparr>console := console e @ [StopLossTriggered (symbol pos) cur]\<rparr>)
                  now (symbol pos) ''SELL'' (quantity pos) ''MARKET'' cur)
      else e)"

definition applyTakeProfit :: "engine \<Rightarrow> nat \<Rightarrow> position \<Rightarrow> real \<Rightarrow> engine" where
  "applyTakeProfit e now pos cur =
     (if quotient_ge (cur - entry_price pos) (entry_price pos) (take_profit_percentage e)
      then snd (placeOrder (e\<lparr>console := console e @ [TakeProfitTriggered (symbol pos) cur]\<rparr>)
                  now (symbol pos) ''SELL'' (quantity pos) ''MARKET'' cur)
      else e)"

subsection \<open>updatePositionPrices\<close>

text \<open>
  The body of the range-for loop of \<^verbatim>\<open>updatePositionPrices\<close>, for the map entry with key
  \<open>k\<close>. The loop variable \<^verbatim>\<open>position\<close> is a reference into \<^verbatim>\<open>portfolio.positions\<close>, so
  every read of it is a lookup of \<open>k\<close> in the current map.

  A paper-mode SELL that \<^verbatim>\<open>applyStopLoss\<close> or \<^verbatim>\<open>applyTakeProfit\<close> places is filled inside
  the call, and \<^verbatim>\<open>updatePortfolio\<close> erases the entry of the order's symbol when its
  quantity reaches zero. When that is the entry being visited, the reference and the
  loop's iterator are left dangling: the reads that follow and the iterator's increment
  have no defined result in C++. The model stops there with \<open>Dangling e\<close>, \<open>e\<close> being the
  engine at that point; \<open>Completed e\<close> is a run that never touches an erased entry.
  An entry erased while another one was visited is simply not reached by the loop:
  the model skips a key that is no longer in the map.
\<close>

datatype outcome = Completed engine | Dangling engine

fun state_of :: "outcome \<Rightarrow> engine" where
  "state_of (Completed e) = e"
| "state_of (Dangling e) = e"

fun is_completed :: "outcome \<Rightarrow> bool" where
  "is_completed (Completed e) = True"
| "is_completed (Dangling e) = False"

definition visitPosition :: "real cmap \<Rightarrow> nat \<Rightarrow> string \<Rightarrow> engine \<Rightarrow> outcome" where
  "visitPosition current_prices now k e =
     (case map_find k (positions (pf e)) of
        None \<Rightarrow> Completed e
      | Some pos0 \<Rightarrow>
          (case map_find k current_prices of
             None \<Rightarrow> Completed e
           | Some new_price \<Rightarrow>
               (let pos1 = pos0\<lparr>current_price := new_price,
                                unrealized_pnl := quantity pos0 * (new_price - entry_price pos0)\<rparr>;
                    e1 = e\<lparr>pf := (pf e)\<lparr>positions := map_assign k pos1 (positions (pf e))\<rparr>\<rparr>;
                    e2 = applyStopLoss e1 now pos1 (current_price pos1)
                in case map_find k (positions (pf e2)) of
                     None \<Rightarrow> Dangling e2
                   | Some pos2 \<Rightarrow>
                       (let e3 = applyTakeProfit e2 now pos2 (current_price pos2)
                        in case map_find k (positions (pf e3)) of
                             None \<Rightarrow> Dangling e3
                           | Some pos3 \<Rightarrow> Completed e3))))"

fun visitPositions :: "real cmap \<Rightarrow> nat \<Rightarrow> string list \<Rightarrow> engine \<Rightarrow> outcome" where
  "visitPositions current_prices now [] e = Completed e"
| "visitPositions current_prices now (k # ks) e =
     (case visitPosition current_prices now k e of
        Dangling e' \<Rightarrow> Dangling e'
      | Completed e' \<Rightarrow> visitPositions current_prices now ks e')"

text \<open>
  The loop visits the keys in ascending order; after it, \<^verbatim>\<open>total_value\<close> is refreshed.
  All orders of one call are stamped with the same clock reading \<open>now\<close>.
\<close>

definition updatePositionPrices :: "engine \<Rightarrow> nat \<Rightarrow> real cmap \<Rightarrow> outcome" where
  "updatePositionPrices e now current_prices =
     (case visitPositions current_prices now (map fst (positions (pf e))) e of
        Dangling e' \<Rightarrow> Dangling e'
      | Completed e' \<Rightarrow> Completed (e'\<lparr>pf := (pf e')\<lparr>total_value := getEquity (pf e')\<rparr>\<rparr>))"

text \<open>Every position is stored under its own symbol, as all writers of the map do.\<close>

definition keyed_by_symbol :: "engine \<Rightarrow> bool" where
  "keyed_by_symbol e = list_all (\<lambda>(k, pos). symbol pos = k) (positions (pf e))"

text \<open>The entries of the positions map are in ascending key order, as in a \<^verbatim>\<open>std::map\<close>.\<close>

definition ordered_keys :: "engine \<Rightarrow> bool" where
  "ordered_keys e = sorted_wrt (<) (map fst (positions (pf e)))"



subsection \<open>cancelOrder\<close>

text \<open>
  Modelled from the spec: \<^verbatim>\<open>TradingEngine::cancelOrder\<close> is declared in
  \<^verbatim>\<open>trading_engine.h\<close> (\<^verbatim>\<open>bool cancelOrder(const std::string& order_id)\<close>); its body is not
  part of the sources. The spec: "the Engine's cancelOrder removes a PENDING order from
  the table only -- it cannot retract an already-recorded fill."
\<close>

definition cancelOrder :: "engine \<Rightarrow> string \<Rightarrow> bool \<times> engine" where
  "cancelOrder e oid =
     (case map_find oid (pending_orders e) of
        Some ord \<Rightarrow>
          (if status ord = ''PENDING''
           then (True, e\<lparr>pending_orders := map_erase oid (pending_orders e)\<rparr>)
           else (False, e))
      | None \<Rightarrow> (False, e))"

section \<open>IPC channel (ipc\_manager.cpp)\<close>

text \<open>
  One \<^verbatim>\<open>IPCManager\<close> endpoint: the \<^verbatim>\<open>connected\<close> flag, whether \<^verbatim>\<open>write_fd\<close> is open, and
  the queue filled by the reader thread. A pipe is the list of bytes written to it and
  not yet read. What the operating system answers is an argument of each operation:
  whether \<^verbatim>\<open>open\<close> succeeds, what \<^verbatim>\<open>write\<close> returns, and how many bytes each \<^verbatim>\<open>read\<close>
  of the reader loop hands over. The callback of the reader is not modelled.
\<close>

record ipc_manager =
  connected :: bool
  write_open :: bool
  message_queue :: "string list"

definition IPCManager :: ipc_manager where
  "IPCManager = \<lparr> connected = False, write_open = False, message_queue = [] \<rparr>"

text \<open>\<^verbatim>\<open>createNamedPipe\<close>: \<open>mkfifo_ok\<close> tells whether both \<^verbatim>\<open>mkfifo\<close> calls succeed.\<close>

definition createNamedPipe :: "ipc_manager \<Rightarrow> bool \<Rightarrow> bool \<times> ipc_manager" where
  "createNamedPipe m mkfifo_ok =
     (if mkfifo_ok then (True, m\<lparr>connected := True\<rparr>) else (False, m))"

definition newline :: char where "newline = CHR 0x0A"
definition nul :: char where "nul = CHR 0x00"
definition BUFFER_SIZE :: nat where "BUFFER_SIZE = 4096"

datatype write_result = WriteError | Written nat

text \<open>
  \<^verbatim>\<open>sendMessage\<close> returns its verdict, the endpoint, and the bytes that reached the pipe:
  \<^verbatim>\<open>write\<close> is called once, and a short count is not followed by a second call.
\<close>

definition sendMessage ::
  "ipc_manager \<Rightarrow> bool \<Rightarrow> write_result \<Rightarrow> string \<Rightarrow> bool \<times> ipc_manager \<times> string" where
  "sendMessage m open_ok wr message =
     (if \<not> connected m then (False, m, [])
      else if \<not> write_open m \<and> \<not> open_ok then (False, m, [])
      else
        (let msg_with_delimiter = message @ [newline]
         in case wr of
              WriteError \<Rightarrow> (False, m\<lparr>write_open := False\<rparr>, [])
            | Written n \<Rightarrow> (True, m\<lparr>write_open := True\<rparr>, take n msg_with_delimiter)))"

text \<open>\<^verbatim>\<open>std::string::find(c)\<close>: the index of the first occurrence.\<close>

fun find_char :: "char \<Rightarrow> string \<Rightarrow> nat option" where
  "find_char c [] = None"
| "find_char c (x # xs) = (if x = c then Some 0 else map_option Suc (find_char c xs))"

text \<open>
  The inner \<^verbatim>\<open>while\<close> loop of \<^verbatim>\<open>readerLoop\<close>: the messages it pushes on the queue. What is
  left of \<^verbatim>\<open>message\<close> when no newline is found goes out of scope with the iteration.
\<close>

function splitMessages :: "string \<Rightarrow> string list" where
  "splitMessages message =
     (case find_char newline message of
        None \<Rightarrow> []
      | Some pos \<Rightarrow>
          (let msg = take pos message
           in (if msg \<noteq> [] then [msg] else []) @ splitMessages (drop (pos + 1) message)))"
  by pat_completeness auto
termination
proof (relation "measure length")
  show "wf (measure length)" by simp
next
  fix message :: string and pos :: nat
  assume found: "find_char newline message = Some pos"
  have "find_char c xs = Some i \<Longrightarrow> i < length xs" for c xs i
    by (induction xs arbitrary: i) (auto split: if_splits)
  from this [OF found] show "(drop (pos + 1) message, message) \<in> measure length"
    by simp
qed

declare splitMessages.simps [simp del]

text \<open>
  One iteration of \<^verbatim>\<open>readerLoop\<close> whose \<^verbatim>\<open>read\<close> returned the bytes \<open>buffer\<close>
  (\<^verbatim>\<open>bytes_read > 0\<close>): \<^verbatim>\<open>std::string message(buffer)\<close> stops at the first NUL byte.
\<close>

definition deliver :: "ipc_manager \<Rightarrow> string \<Rightarrow> ipc_manager" where
  "deliver m buffer =
     m\<lparr>message_queue := message_queue m @ splitMessages (takeWhile (\<lambda>c. c \<noteq> nul) buffer)\<rparr>"

text \<open>
  \<^verbatim>\<open>readerLoop\<close> on the bytes \<open>pipe\<close>: one list element per iteration made while
  \<^verbatim>\<open>running\<close> is set, giving the number of bytes the pipe has ready for that \<^verbatim>\<open>read\<close>;
  the call asks for at most \<^verbatim>\<open>sizeof(buffer) - 1\<close>. An iteration that reads nothing
  changes nothing.
\<close>

fun readerLoop :: "ipc_manager \<Rightarrow> nat list \<Rightarrow> string \<Rightarrow> ipc_manager" where
  "readerLoop m [] pipe = m"
| "readerLoop m (n # ns) pipe =
     (let bytes_read = min n (min (BUFFER_SIZE - 1) (length pipe))
      in if 0 < bytes_read
         then readerLoop (deliver m (take bytes_read pipe)) ns (drop bytes_read pipe)
         else readerLoop m ns pipe)"

text \<open>\<^verbatim>\<open>receiveMessage\<close>: the front of the queue, or the empty string when the wait times out.\<close>

definition receiveMessage :: "ipc_manager \<Rightarrow> string \<times> ipc_manager" where
  "receiveMessage m =
     (case message_queue m of
        [] \<Rightarrow> ([], m)
      | message # rest \<Rightarrow> (message, m\<lparr>message_queue := rest\<rparr>))"

text \<open>
  \<open>sendMessage\<close> on a connected endpoint whose \<^verbatim>\<open>write\<close> takes the whole frame, the peer's
  reader loop on those bytes with the reads \<open>ns\<close>, then \<open>receiveMessage\<close> on the peer.
\<close>

definition round_trip :: "nat list \<Rightarrow> string \<Rightarrow> string" where
  "round_trip ns message =
     (case sendMessage (snd (createNamedPipe IPCManager True)) True
             (Written (length message + 1)) message of
        (sent, sender, bytes) \<Rightarrow>
          fst (receiveMessage (readerLoop (snd (createNamedPipe IPCManager True)) ns bytes)))"

section \<open>Sample values\<close>

definition sample_order :: "string \<Rightarrow> string \<Rightarrow> real \<Rightarrow> real \<Rightarrow> order" where
  "sample_order sd symb qty price0 =
     \<lparr> order_id = ''ORD_1_1'', order_symbol = symb, side = sd, order_quantity = qty,
       price = price0, order_type = ''MARKET'', status = ''FILLED'', timestamp = 1 \<rparr>"

definition sample_position :: "string \<Rightarrow> real \<Rightarrow> real \<Rightarrow> position" where
  "sample_position symb qty entry =
     \<lparr> symbol = symb, quantity = qty, entry_price = entry, current_price = entry,
       unrealized_pnl = 0, entry_time = 0 \<rparr>"

text \<open>An engine that has loaded one open BTC position of 0.01 entered at 100000.\<close>

definition holding_btc :: "TradingMode \<Rightarrow> engine" where
  "holding_btc m = initialize (TradingEngine m 10000) [sample_position ''BTC'' 0.01 100000]"

text \<open>The scenario of the spec: cash 10000, maxPositionSize 5000, market price 100000.\<close>

definition scenario_start :: engine where
  "scenario_start = TradingEngine PAPER 10000"

definition scenario_first :: "nat \<Rightarrow> string \<times> engine" where
  "scenario_first now = placeOrder scenario_start now ''BTC'' ''BUY'' 0.05 ''MARKET'' 100000"

text \<open>A price map with BTC at 97000, and two calls of \<open>updatePositionPrices\<close> with it.\<close>

definition btc_drop :: "real cmap" where
  "btc_drop = [(''BTC'', 97000)]"



definition paper_first :: outcome where
  "paper_first = updatePositionPrices (holding_btc PAPER) 1 btc_drop"

text \<open>
  A paper-mode engine in a drawdown: 5900 in cash against a peak of 10000, one AAA
  entered at 100 and four BBB entered at 1000 and last seen at 400. In the price map AAA
  falls to 97 and BBB is back at 1000.
\<close>

definition in_drawdown :: engine where
  "in_drawdown =
     (let e = initialize (TradingEngine PAPER 10000)
                [sample_position ''AAA'' 1 100,
                 (sample_position ''BBB'' 4 1000)\<lparr>current_price := 400\<rparr>]
      in e\<lparr>pf := (pf e)\<lparr>cash_balance := 5900\<rparr>\<rparr>)"

definition recovery :: "real cmap" where
  "recovery = [(''AAA'', 97), (''BBB'', 1000)]"

definition drawdown_first :: outcome where
  "drawdown_first = updatePositionPrices in_drawdown 1 recovery"

definition drawdown_second :: outcome where
  "drawdown_second = updatePositionPrices (state_of drawdown_first) 2 recovery"




section \<open>Properties\<close>

subsection \<open>Lookups after assignment and erasure\<close>

lemma map_find_assign_same: "map_find k (map_assign k v xs) = Some v"
  by (induction xs) auto

lemma map_find_assign_other: "j \<noteq> k \<Longrightarrow> map_find j (map_assign k v xs) = map_find j xs"
  by (induction xs) auto

lemma map_find_erase_same: "map_find k (map_erase k xs) = None"
  by (induction xs) auto

lemma map_find_erase_other: "j \<noteq> k \<Longrightarrow> map_find j (map_erase k xs) = map_find j xs"
  by (induction xs) auto

subsection \<open>Cash after a BUY fill\<close>

text \<open>
  C1. For every BUY fill that \<open>updatePortfolio\<close> processes, with quantity \<open>q > 0\<close> and
  fill price \<open>p\<close>, the cash balance afterwards is the cash balance before minus \<open>q * p\<close>.
\<close>

theorem buy_fill_cash:
  assumes "side ord = ''BUY''" and "0 < order_quantity ord"
  shows "cash_balance (pf (updatePortfolio e now ord)) =
           cash_balance (pf e) - order_quantity ord * price ord"
  using assms by (simp add: updatePortfolio_def Let_def split: option.split)

theorem buy_fill_cash_witness:
  "side (sample_order ''BUY'' ''BTC'' 2 100) = ''BUY''
   \<and> 0 < order_quantity (sample_order ''BUY'' ''BTC'' 2 100)
   \<and> cash_balance (pf (updatePortfolio (TradingEngine PAPER 10000) 1
                          (sample_order ''BUY'' ''BTC'' 2 100))) = 9800"
  using buy_fill_cash [of "sample_order ''BUY'' ''BTC'' 2 100" "TradingEngine PAPER 10000" 1]
  by (simp add: sample_order_def TradingEngine_def)

subsection \<open>Weighted-average entry price\<close>

text \<open>
  C2. Starting from a state with no position in a symbol, two BUY fills \<open>(q1, p1)\<close> and
  then \<open>(q2, p2)\<close> in that symbol, with \<open>q1, q2 > 0\<close>, leave a position whose quantity is
  \<open>q1 + q2\<close> and whose entry price is \<open>(q1 * p1 + q2 * p2) / (q1 + q2)\<close>.
\<close>

theorem two_buys_average_entry:
  assumes "map_find k (positions (pf e)) = None"
    and "side o1 = ''BUY''" and "order_symbol o1 = k" and "0 < order_quantity o1"
    and "side o2 = ''BUY''" and "order_symbol o2 = k" and "0 < order_quantity o2"
  shows "\<exists>pos. map_find k (positions (pf (updatePortfolio (updatePortfolio e n1 o1) n2 o2))) = Some pos
           \<and> quantity pos = order_quantity o1 + order_quantity o2
           \<and> entry_price pos =
               (order_quantity o1 * price o1 + order_quantity o2 * price o2)
                 / (order_quantity o1 + order_quantity o2)"
  using assms
  by (simp add: updatePortfolio_def Let_def map_find_assign_same)

theorem two_buys_average_entry_witness:
  "map_find ''BTC'' (positions (pf (TradingEngine PAPER 10000))) = None
   \<and> (\<exists>pos. map_find ''BTC'' (positions (pf (updatePortfolio
                 (updatePortfolio (TradingEngine PAPER 10000) 1 (sample_order ''BUY'' ''BTC'' 1 100))
                 2 (sample_order ''BUY'' ''BTC'' 3 200)))) = Some pos
          \<and> quantity pos = 4 \<and> entry_price pos = 175)"
  using two_buys_average_entry [of "''BTC''" "TradingEngine PAPER 10000"
      "sample_order ''BUY'' ''BTC'' 1 100" "sample_order ''BUY'' ''BTC'' 3 200" 1 2]
  by (simp add: sample_order_def TradingEngine_def)

subsection \<open>A SELL that closes the position\<close>

text \<open>
  C3. A SELL fill for the whole quantity of the existing position adds
  \<open>quantity * fillPrice\<close> to the cash, removes the position from the map, and the realized
  P&L computed for the fill is \<open>quantity * (fillPrice - entry price)\<close>.
\<close>

theorem full_sell_closes_position:
  assumes "side ord = ''SELL''"
    and "map_find (order_symbol ord) (positions (pf e)) = Some pos"
    and "order_quantity ord = quantity pos"
  shows "cash_balance (pf (updatePortfolio e now ord)) =
           cash_balance (pf e) + order_quantity ord * price ord
       \<and> map_find (order_symbol ord) (positions (pf (updatePortfolio e now ord))) = None
       \<and> realized_pnl ord pos = order_quantity ord * (price ord - entry_price pos)"
  using assms
  by (simp add: updatePortfolio_def Let_def map_find_erase_same realized_pnl_def)

lemma holding_btc_positions:
  "positions (pf (holding_btc m)) = [(''BTC'', sample_position ''BTC'' 0.01 100000)]"
  by (simp add: holding_btc_def initialize_def TradingEngine_def sample_position_def)

lemma holding_btc_cash: "cash_balance (pf (holding_btc m)) = 10000"
  by (simp add: holding_btc_def initialize_def TradingEngine_def)

theorem full_sell_closes_position_witness:
  "map_find ''BTC'' (positions (pf (holding_btc PAPER))) = Some (sample_position ''BTC'' 0.01 100000)
   \<and> cash_balance (pf (updatePortfolio (holding_btc PAPER) 1
         (sample_order ''SELL'' ''BTC'' 0.01 110000))) = 11100
   \<and> map_find ''BTC'' (positions (pf (updatePortfolio (holding_btc PAPER) 1
         (sample_order ''SELL'' ''BTC'' 0.01 110000)))) = None
   \<and> realized_pnl (sample_order ''SELL'' ''BTC'' 0.01 110000)
         (sample_position ''BTC'' 0.01 100000) = 100"
  using full_sell_closes_position [of "sample_order ''SELL'' ''BTC'' 0.01 110000"
      "holding_btc PAPER" "sample_position ''BTC'' 0.01 100000" 1]
  by (simp add: sample_order_def sample_position_def holding_btc_positions holding_btc_cash)


subsection \<open>Paper-mode SELL without a position\<close>

lemma order_id_nonempty: "fst (generateOrderId e now) \<noteq> ''''"
  by (simp add: generateOrderId_def Let_def)

text \<open>
  C9. In paper mode, a SELL MARKET order for a symbol without a position that passes the
  validation and the risk checks is moved to the filled table with status FILLED, while
  the cash balance and the positions map stay exactly as they were: nothing is credited.
\<close>

theorem sell_without_position_fills:
  assumes "mode e = PAPER" and "map_find symb (positions (pf e)) = None"
    and "0 < qty" and "fst (checkRiskLimits e symb qty price0)"
    and "placeOrder e now symb ''SELL'' qty ''MARKET'' price0 = (oid, e')"
  shows "oid \<noteq> ''''
       \<and> (\<exists>ord. map_find oid (filled_orders e') = Some ord \<and> status ord = ''FILLED'')
       \<and> map_find oid (pending_orders e') = None
       \<and> cash_balance (pf e') = cash_balance (pf e)
       \<and> positions (pf e') = positions (pf e)"
  using assms
  by (auto simp: placeOrder_def generateOrderId_def Let_def simulateFill_def executeMarketOrder_def
      updatePortfolio_def map_find_assign_same map_find_erase_same split: prod.splits bool.splits if_splits)

lemma fresh_engine_check: "checkRiskLimits (TradingEngine m 10000) symb 0.01 100000 = (True, [])"
  by (simp add: TradingEngine_def checkRiskLimits_def getEquity_def quotient_gt_def)

lemma TradingEngine_fields:
  "mode (TradingEngine m bal) = m"
  "cash_balance (pf (TradingEngine m bal)) = bal"
  "positions (pf (TradingEngine m bal)) = []"
  "pending_orders (TradingEngine m bal) = []"
  "filled_orders (TradingEngine m bal) = []"
  "peak_balance (TradingEngine m bal) = bal"
  "max_position_size (TradingEngine m bal) = 5000"
  by (simp_all add: TradingEngine_def)

theorem sell_without_position_fills_witness:
  "mode (TradingEngine PAPER 10000) = PAPER
   \<and> map_find ''BTC'' (positions (pf (TradingEngine PAPER 10000))) = None
   \<and> fst (checkRiskLimits (TradingEngine PAPER 10000) ''BTC'' 0.01 100000)
   \<and> fst (placeOrder (TradingEngine PAPER 10000) 7 ''BTC'' ''SELL'' 0.01 ''MARKET'' 100000) \<noteq> ''''
   \<and> (\<exists>ord. map_find (fst (placeOrder (TradingEngine PAPER 10000) 7 ''BTC'' ''SELL'' 0.01 ''MARKET'' 100000))
          (filled_orders (snd (placeOrder (TradingEngine PAPER 10000) 7 ''BTC'' ''SELL'' 0.01 ''MARKET'' 100000))) = Some ord
          \<and> status ord = ''FILLED'')
   \<and> cash_balance (pf (snd (placeOrder (TradingEngine PAPER 10000) 7 ''BTC'' ''SELL'' 0.01 ''MARKET'' 100000))) = 10000
   \<and> positions (pf (snd (placeOrder (TradingEngine PAPER 10000) 7 ''BTC'' ''SELL'' 0.01 ''MARKET'' 100000))) = []"
proof -
  let ?e = "TradingEngine PAPER 10000"
  let ?r = "placeOrder ?e 7 ''BTC'' ''SELL'' 0.01 ''MARKET'' 100000"
  have h1: "mode ?e = PAPER" and h2: "map_find ''BTC'' (positions (pf ?e)) = None"
    by (simp_all add: TradingEngine_fields)
  have h3: "(0::real) < 0.01" by simp
  have h4: "fst (checkRiskLimits ?e ''BTC'' 0.01 100000)"
    using fresh_engine_check [of PAPER "''BTC''"] by simp
  have h5: "?r = (fst ?r, snd ?r)" by simp
  show ?thesis
    using h1 h2 h4 sell_without_position_fills [OF h1 h2 h3 h4 h5]
    by (simp add: TradingEngine_fields)
qed

subsection \<open>Rejections change nothing\<close>

text \<open>
  C10. Whenever \<open>placeOrder\<close> returns the empty string, the quantity was not positive or
  a risk check failed, and the portfolio (cash and positions), the pending-order table
  and the filled-order table are exactly as before the call.
\<close>

theorem rejection_is_atomic:
  assumes "fst (placeOrder e now symb sd qty otype price0) = ''''"
  shows "(qty \<le> 0 \<or> \<not> fst (checkRiskLimits e symb qty price0))
       \<and> pf (snd (placeOrder e now symb sd qty otype price0)) = pf e
       \<and> pending_orders (snd (placeOrder e now symb sd qty otype price0)) = pending_orders e
       \<and> filled_orders (snd (placeOrder e now symb sd qty otype price0)) = filled_orders e"
  using assms
  by (auto simp: placeOrder_def generateOrderId_def Let_def split: prod.splits bool.splits if_splits)

theorem rejection_is_atomic_witness:
  "fst (placeOrder (TradingEngine PAPER 10000) 7 ''BTC'' ''BUY'' 1 ''MARKET'' 100000) = ''''
   \<and> \<not> fst (checkRiskLimits (TradingEngine PAPER 10000) ''BTC'' 1 100000)
   \<and> pf (snd (placeOrder (TradingEngine PAPER 10000) 7 ''BTC'' ''BUY'' 1 ''MARKET'' 100000)) = pf (TradingEngine PAPER 10000)
   \<and> pending_orders (snd (placeOrder (TradingEngine PAPER 10000) 7 ''BTC'' ''BUY'' 1 ''MARKET'' 100000)) = []
   \<and> filled_orders (snd (placeOrder (TradingEngine PAPER 10000) 7 ''BTC'' ''BUY'' 1 ''MARKET'' 100000)) = []"
proof -
  have rejected: "fst (placeOrder (TradingEngine PAPER 10000) 7 ''BTC'' ''BUY'' 1 ''MARKET'' 100000) = ''''"
    by (simp add: placeOrder_def checkRiskLimits_def TradingEngine_def)
  show ?thesis
    using rejected rejection_is_atomic [OF rejected]
    by (simp add: TradingEngine_def checkRiskLimits_def)
qed

subsection \<open>The boundary scenario\<close>

lemmas engine_defs = placeOrder_def checkRiskLimits_def getEquity_def quotient_gt_def
  generateOrderId_def simulateFill_def executeMarketOrder_def updatePortfolio_def
  simulateSpread_def simulateSlippage_def spread_rate_def slippage_rate_def

lemma scenario_first_accepted: "fst (scenario_first now) \<noteq> ''''"
  by (simp add: scenario_first_def scenario_start_def TradingEngine_def engine_defs Let_def)

lemma scenario_first_cash: "cash_balance (pf (snd (scenario_first now))) = 4992.49499875"
  by (simp add: scenario_first_def scenario_start_def TradingEngine_def engine_defs Let_def)

lemma scenario_first_limit: "max_position_size (snd (scenario_first now)) = 5000"
  by (simp add: scenario_first_def scenario_start_def TradingEngine_def engine_defs Let_def)

lemma scenario_second_check:
  "checkRiskLimits (snd (scenario_first now)) ''BTC'' 0.1 100000
     = (False, [PositionSizeExceeds 10000 5000])"
  using scenario_first_limit [of now] by (simp add: checkRiskLimits_def)

text \<open>
  C4, as the code has it. With cash 10000 and maxPositionSize 5000, the order
  \<open>placeOrder(BUY, BTC, 0.05, MARKET, 100000)\<close> has notional exactly 5000, passes every
  risk check and returns an identifier. The next order, for 0.1 at 100000 (notional
  10000), is rejected, and the check that rejects it is the position-size limit, which
  runs before the cash check; the cash left by the first fill, 4992.49499875, would
  not have covered it either.
\<close>

theorem boundary_scenario:
  "checkRiskLimits scenario_start ''BTC'' 0.05 100000 = (True, [])
   \<and> 0.05 * 100000 = max_position_size scenario_start
   \<and> fst (scenario_first now) \<noteq> ''''
   \<and> fst (placeOrder (snd (scenario_first now)) now' ''BTC'' ''BUY'' 0.1 ''MARKET'' 100000) = ''''
   \<and> checkRiskLimits (snd (scenario_first now)) ''BTC'' 0.1 100000
        = (False, [PositionSizeExceeds 10000 5000])
   \<and> cash_balance (pf (snd (scenario_first now))) = 4992.49499875"
proof -
  have "checkRiskLimits scenario_start ''BTC'' 0.05 100000 = (True, [])"
    by (simp add: scenario_start_def TradingEngine_def checkRiskLimits_def getEquity_def
        quotient_gt_def)
  moreover have "0.05 * 100000 = max_position_size scenario_start"
    by (simp add: scenario_start_def TradingEngine_def)
  moreover have
    "fst (placeOrder (snd (scenario_first now)) now' ''BTC'' ''BUY'' 0.1 ''MARKET'' 100000) = ''''"
    using scenario_second_check [of now] by (simp add: placeOrder_def)
  ultimately show ?thesis
    using scenario_first_accepted scenario_second_check scenario_first_cash by blast
qed

text \<open>
  The claim as the spec words it names insufficient cash as the rejecting check. The
  line \<open>checkRiskLimits\<close> writes for the second order is the position-size one.
\<close>

theorem boundary_scenario_counterexample:
  "\<not> (fst (scenario_first 0) \<noteq> ''''
      \<and> fst (placeOrder (snd (scenario_first 0)) 0 ''BTC'' ''BUY'' 0.1 ''MARKET'' 100000) = ''''
      \<and> checkRiskLimits (snd (scenario_first 0)) ''BTC'' 0.1 100000
           = (False, [InsufficientFunds 10000 (cash_balance (pf (snd (scenario_first 0))))]))"
  using scenario_second_check [of 0] by simp

text \<open>
  When the price argument is left to its default \<^verbatim>\<open>0.0\<close>, as the four-argument call does,
  the notional seen by the checks is zero: the second order is accepted and filled at
  the default market price, and the cash goes negative.
\<close>

lemma defaulted_price_passes_checks:
  "fst (placeOrder (snd (scenario_first now)) now' ''BTC'' ''BUY'' 0.1 ''MARKET'' 0) \<noteq> ''''
   \<and> cash_balance (pf (snd (placeOrder (snd (scenario_first now)) now' ''BTC'' ''BUY'' 0.1
                             ''MARKET'' 0))) < 0"
  by (simp add: scenario_first_def scenario_start_def TradingEngine_def engine_defs Let_def)

subsection \<open>Cancelling\<close>

text \<open>
  C8. \<open>cancelOrder\<close> removes the order from the pending table exactly when the table
  holds it with status PENDING; otherwise the engine is unchanged. In both cases the
  filled table and the portfolio, which carry every recorded fill, and the peak
  equity are untouched, and so is every other pending order.
\<close>

theorem cancel_only_pending:
  "(map_find oid (pending_orders (snd (cancelOrder e oid))) \<noteq> map_find oid (pending_orders e)
      \<longleftrightarrow> (\<exists>ord. map_find oid (pending_orders e) = Some ord \<and> status ord = ''PENDING''))
   \<and> (fst (cancelOrder e oid)
      \<longleftrightarrow> (\<exists>ord. map_find oid (pending_orders e) = Some ord \<and> status ord = ''PENDING''))
   \<and> (fst (cancelOrder e oid) \<longrightarrow> map_find oid (pending_orders (snd (cancelOrder e oid))) = None)
   \<and> (\<not> fst (cancelOrder e oid) \<longrightarrow> snd (cancelOrder e oid) = e)
   \<and> (\<forall>other. other \<noteq> oid \<longrightarrow>
         map_find other (pending_orders (snd (cancelOrder e oid)))
           = map_find other (pending_orders e))
   \<and> filled_orders (snd (cancelOrder e oid)) = filled_orders e
   \<and> pf (snd (cancelOrder e oid)) = pf e
   \<and> peak_balance (snd (cancelOrder e oid)) = peak_balance e"
  by (auto simp: cancelOrder_def map_find_erase_same map_find_erase_other split: option.splits)

lemma pending_limit_order:
  "placeOrder (TradingEngine LIVE 10000) 1 ''BTC'' ''BUY'' 0.01 ''LIMIT'' 100000 = (oid, e)
   \<Longrightarrow> \<exists>ord. map_find oid (pending_orders e) = Some ord \<and> status ord = ''PENDING''"
  by (auto simp: placeOrder_def checkRiskLimits_def getEquity_def quotient_gt_def
      TradingEngine_def generateOrderId_def Let_def map_find_assign_same)

theorem cancel_only_pending_witness:
  "fst (cancelOrder (snd (placeOrder (TradingEngine LIVE 10000) 1 ''BTC'' ''BUY'' 0.01 ''LIMIT'' 100000))
          (fst (placeOrder (TradingEngine LIVE 10000) 1 ''BTC'' ''BUY'' 0.01 ''LIMIT'' 100000)))
   \<and> map_find (fst (placeOrder (TradingEngine LIVE 10000) 1 ''BTC'' ''BUY'' 0.01 ''LIMIT'' 100000))
       (pending_orders (snd (cancelOrder
          (snd (placeOrder (TradingEngine LIVE 10000) 1 ''BTC'' ''BUY'' 0.01 ''LIMIT'' 100000))
          (fst (placeOrder (TradingEngine LIVE 10000) 1 ''BTC'' ''BUY'' 0.01 ''LIMIT'' 100000))))) = None
   \<and> \<not> fst (cancelOrder (TradingEngine LIVE 10000) ''ORD_1_1'')
   \<and> snd (cancelOrder (TradingEngine LIVE 10000) ''ORD_1_1'') = TradingEngine LIVE 10000"
proof -
  let ?r = "placeOrder (TradingEngine LIVE 10000) 1 ''BTC'' ''BUY'' 0.01 ''LIMIT'' 100000"
  have held: "\<exists>ord. map_find (fst ?r) (pending_orders (snd ?r)) = Some ord \<and> status ord = ''PENDING''"
    using pending_limit_order [of "fst ?r" "snd ?r"] by simp
  have none: "\<not> (\<exists>ord. map_find ''ORD_1_1'' (pending_orders (TradingEngine LIVE 10000)) = Some ord
                    \<and> status ord = ''PENDING'')"
    by (simp add: TradingEngine_def)
  show ?thesis
    using held none cancel_only_pending [of "fst ?r" "snd ?r"]
      cancel_only_pending [of "''ORD_1_1''" "TradingEngine LIVE 10000"]
    by blast
qed

subsection \<open>Peak equity\<close>

lemma updatePortfolio_peak: "peak_balance e \<le> peak_balance (updatePortfolio e now ord)"
  by (simp add: updatePortfolio_def Let_def split: option.split)

lemma executeMarketOrder_peak:
  "peak_balance e \<le> peak_balance (executeMarketOrder e now ord market_price)"
  by (simp add: executeMarketOrder_def Let_def updatePortfolio_peak)

lemma simulateFill_peak: "peak_balance e \<le> peak_balance (simulateFill e now draw ord market_price)"
  by (simp add: simulateFill_def Let_def executeLimitOrder_def executeMarketOrder_peak)

lemma placeOrder_peak:
  "peak_balance e \<le> peak_balance (snd (placeOrder e now symb sd qty otype price0))"
proof -
  have "peak_balance e \<le> peak_balance (simulateFill (e\<lparr>console := c, order_counter := n,
          pending_orders := p\<rparr>) now 0 ord mp)" for c n p ord mp
    using simulateFill_peak [of "e\<lparr>console := c, order_counter := n, pending_orders := p\<rparr>"]
    by simp
  then show ?thesis
    by (simp add: placeOrder_def generateOrderId_def Let_def split: prod.split bool.split)
qed


lemma applyStopLoss_peak: "peak_balance e \<le> peak_balance (applyStopLoss e now pos cur)"
  using placeOrder_peak [of "e\<lparr>console := console e @ [StopLossTriggered (symbol pos) cur]\<rparr>"]
  by (simp add: applyStopLoss_def)

lemma applyTakeProfit_peak: "peak_balance e \<le> peak_balance (applyTakeProfit e now pos cur)"
  using placeOrder_peak [of "e\<lparr>console := console e @ [TakeProfitTriggered (symbol pos) cur]\<rparr>"]
  by (simp add: applyTakeProfit_def)

lemma visitPosition_peak:
  "peak_balance e \<le> peak_balance (state_of (visitPosition current_prices now k e))"
proof (cases "map_find k (positions (pf e))")
  case None
  then show ?thesis by (simp add: visitPosition_def)
next
  case (Some pos0)
  show ?thesis
  proof (cases "map_find k current_prices")
    case None
    with Some show ?thesis by (simp add: visitPosition_def)
  next
    case (Some new_price)
    define pos1 where "pos1 = pos0\<lparr>current_price := new_price,
      unrealized_pnl := quantity pos0 * (new_price - entry_price pos0)\<rparr>"
    define e1 where "e1 = e\<lparr>pf := (pf e)\<lparr>positions := map_assign k pos1 (positions (pf e))\<rparr>\<rparr>"
    define e2 where "e2 = applyStopLoss e1 now pos1 (current_price pos1)"
    have le2: "peak_balance e \<le> peak_balance e2"
      using applyStopLoss_peak [of e1 now pos1 "current_price pos1"]
      by (simp add: e2_def e1_def)
    have le3: "peak_balance e \<le> peak_balance (applyTakeProfit e2 now pos2 c)" for pos2 c
      using le2 applyTakeProfit_peak [of e2 now pos2 c] by linarith
    from Some \<open>map_find k (positions (pf e)) = Some pos0\<close> le2 le3 show ?thesis
      by (simp add: visitPosition_def Let_def pos1_def [symmetric] e1_def [symmetric]
          e2_def [symmetric] split: option.split)
  qed
qed

lemma visitPositions_peak:
  "peak_balance e \<le> peak_balance (state_of (visitPositions current_prices now ks e))"
proof (induction ks arbitrary: e)
  case Nil
  show ?case by simp
next
  case (Cons k ks)
  show ?case
  proof (cases "visitPosition current_prices now k e")
    case (Completed e')
    with visitPosition_peak [of e current_prices now k] Cons.IH [of e'] show ?thesis
      by simp
  next
    case (Dangling e')
    with visitPosition_peak [of e current_prices now k] show ?thesis
      by simp
  qed
qed

lemma updatePositionPrices_peak:
  "peak_balance e \<le> peak_balance (state_of (updatePositionPrices e now current_prices))"
  using visitPositions_peak [of e current_prices now "map fst (positions (pf e))"]
  by (cases "visitPositions current_prices now (map fst (positions (pf e))) e")
     (simp_all add: updatePositionPrices_def)

lemma processTradingSignal_peak:
  "peak_balance e \<le> peak_balance (processTradingSignal e now signal)"
proof -
  have "peak_balance e \<le> peak_balance (snd (placeOrder (e\<lparr>console := c\<rparr>) now symb sd qty ot p))"
    for c symb sd qty ot p
    using placeOrder_peak [of "e\<lparr>console := c\<rparr>" now symb sd qty ot p] by simp
  then show ?thesis
    by (simp add: processTradingSignal_def Let_def split: option.split)
qed

text \<open>
  C7. The recorded peak equity \<open>peak_balance\<close> never decreases: \<open>placeOrder\<close>,
  \<open>simulateFill\<close>, \<open>updatePortfolio\<close>, \<open>updatePositionPrices\<close> and \<open>processTradingSignal\<close>
  each leave it at least as large as it was before the call.
\<close>

theorem peak_equity_never_decreases:
  "peak_balance e \<le> peak_balance (snd (placeOrder e now symb sd qty otype price0))
   \<and> peak_balance e \<le> peak_balance (simulateFill e now draw ord market_price)
   \<and> peak_balance e \<le> peak_balance (updatePortfolio e now ord)
   \<and> peak_balance e \<le> peak_balance (state_of (updatePositionPrices e now current_prices))
   \<and> peak_balance e \<le> peak_balance (processTradingSignal e now signal)"
  by (simp add: placeOrder_peak simulateFill_peak updatePortfolio_peak
      updatePositionPrices_peak processTradingSignal_peak)

subsection \<open>The message round trip\<close>

lemma find_char_less: "find_char c xs = Some i \<Longrightarrow> i < length xs"
  by (induction xs arbitrary: i) (auto split: if_splits)

lemma find_char_absent: "c \<notin> set xs \<Longrightarrow> find_char c xs = None"
  by (induction xs) auto

lemma find_char_at_end: "c \<notin> set xs \<Longrightarrow> find_char c (xs @ c # ys) = Some (length xs)"
  by (induction xs) auto

lemma splitMessages_shorter: "x \<in> set (splitMessages s) \<Longrightarrow> length x < length s"
proof (induction s rule: splitMessages.induct)
  case (1 message)
  show ?case
  proof (cases "find_char newline message")
    case None
    with "1.prems" show ?thesis by (simp add: splitMessages.simps [of message])
  next
    case (Some pos)
    have pos: "pos < length message" using Some by (rule find_char_less)
    from "1.prems" Some
    have "x = take pos message \<or> x \<in> set (splitMessages (drop (pos + 1) message))"
      by (auto simp: splitMessages.simps [of message] Let_def split: if_splits)
    then show ?thesis
    proof
      assume "x = take pos message"
      with pos show ?thesis by simp
    next
      assume "x \<in> set (splitMessages (drop (pos + 1) message))"
      from "1.IH" [OF Some refl this] show ?thesis by simp
    qed
  qed
qed

lemma deliver_queue:
  "x \<in> set (message_queue (deliver m buffer))
   \<Longrightarrow> x \<in> set (message_queue m) \<or> length x < length buffer"
proof -
  assume "x \<in> set (message_queue (deliver m buffer))"
  then consider "x \<in> set (message_queue m)"
    | "x \<in> set (splitMessages (takeWhile (\<lambda>c. c \<noteq> nul) buffer))"
    by (auto simp: deliver_def)
  then show ?thesis
  proof cases
    case 1
    then show ?thesis by simp
  next
    case 2
    from splitMessages_shorter [OF 2] length_takeWhile_le [of "\<lambda>c. c \<noteq> nul" buffer]
    show ?thesis by simp
  qed
qed

lemma readerLoop_queue:
  "x \<in> set (message_queue (readerLoop m ns pipe))
   \<Longrightarrow> x \<in> set (message_queue m) \<or> length x < BUFFER_SIZE - 1"
proof (induction ns arbitrary: m pipe)
  case Nil
  then show ?case by simp
next
  case (Cons n ns)
  define bytes_read where "bytes_read = min n (min (BUFFER_SIZE - 1) (length pipe))"
  have step: "readerLoop m (n # ns) pipe =
      (if 0 < bytes_read
       then readerLoop (deliver m (take bytes_read pipe)) ns (drop bytes_read pipe)
       else readerLoop m ns pipe)"
    by (simp only: readerLoop.simps Let_def bytes_read_def)
  show ?case
  proof (cases "0 < bytes_read")
    case False
    with Cons.prems step have "x \<in> set (message_queue (readerLoop m ns pipe))"
      by simp
    from Cons.IH [OF this] show ?thesis .
  next
    case True
    with Cons.prems step
    have "x \<in> set (message_queue
             (readerLoop (deliver m (take bytes_read pipe)) ns (drop bytes_read pipe)))"
      by simp
    from Cons.IH [OF this]
    have "x \<in> set (message_queue (deliver m (take bytes_read pipe))) \<or> length x < BUFFER_SIZE - 1" .
    moreover have "length (take bytes_read pipe) \<le> BUFFER_SIZE - 1"
      by (simp add: bytes_read_def)
    ultimately show ?thesis
      using deliver_queue [of x m "take bytes_read pipe"] by auto
  qed
qed

lemma readerLoop_drained: "readerLoop m ns [] = m"
  by (induction ns arbitrary: m) (simp_all add: Let_def)

lemma splitMessages_frame:
  assumes "newline \<notin> set message"
  shows "splitMessages (message @ [newline]) = (if message \<noteq> [] then [message] else [])"
proof -
  have "find_char newline (message @ [newline]) = Some (length message)"
    using assms by (rule find_char_at_end)
  then show ?thesis
    by (simp add: splitMessages.simps [of "message @ [newline]"] splitMessages.simps [of "[]"])
qed

lemma deliver_frame:
  assumes "newline \<notin> set message" and "nul \<notin> set message"
  shows "deliver m (message @ [newline]) =
           m\<lparr>message_queue := message_queue m @ (if message \<noteq> [] then [message] else [])\<rparr>"
proof -
  have "takeWhile (\<lambda>c. c \<noteq> nul) (message @ [newline]) = message @ [newline]"
    using assms(2) by (auto simp: takeWhile_eq_all_conv nul_def newline_def)
  then show ?thesis
    using splitMessages_frame [OF assms(1)] by (simp add: deliver_def)
qed

lemma deliver_bare_newline: "deliver m [newline] = m"
  using deliver_frame [of "[]" m] by simp

lemma round_trip_unfold:
  "round_trip ns message =
     fst (receiveMessage (readerLoop (IPCManager\<lparr>connected := True\<rparr>) ns (message @ [newline])))"
  by (simp add: round_trip_def sendMessage_def createNamedPipe_def IPCManager_def Let_def)

text \<open>
  C6 at messages of \<open>BUFFER_SIZE - 1 = 4095\<close> bytes or more: however the reads of the
  peer's reader loop cut the stream, \<open>receiveMessage\<close> does not return the message.
\<close>

theorem long_message_not_delivered:
  assumes "BUFFER_SIZE - 1 \<le> length message"
  shows "round_trip ns message \<noteq> message"
proof
  assume same: "round_trip ns message = message"
  define q where "q = message_queue (readerLoop (IPCManager\<lparr>connected := True\<rparr>) ns
                                       (message @ [newline]))"
  have nonempty: "message \<noteq> []"
    using assms by (auto simp: BUFFER_SIZE_def)
  show False
  proof (cases q)
    case Nil
    with same nonempty show False
      by (simp add: round_trip_unfold receiveMessage_def q_def [symmetric])
  next
    case (Cons x rest)
    with same have "x = message"
      by (simp add: round_trip_unfold receiveMessage_def q_def [symmetric])
    moreover have "x \<in> set q" using Cons by simp
    then have "x \<in> set (message_queue (IPCManager\<lparr>connected := True\<rparr>))
               \<or> length x < BUFFER_SIZE - 1"
      unfolding q_def by (rule readerLoop_queue)
    then have "length x < BUFFER_SIZE - 1"
      by (simp add: IPCManager_def)
    ultimately show False using assms by simp
  qed
qed

theorem long_message_not_delivered_witness:
  "BUFFER_SIZE - 1 \<le> length (replicate 4095 (CHR ''a''))
   \<and> round_trip [4095, 4095] (replicate 4095 (CHR ''a'')) \<noteq> replicate 4095 (CHR ''a'')"
  using long_message_not_delivered [of "replicate 4095 (CHR ''a'')" "[4095, 4095]"]
  by (simp add: BUFFER_SIZE_def)

text \<open>
  What the peer returns there: the first read takes the 4095 bytes of the message, finds
  no newline in them and drops them; the second read takes the newline alone, an empty
  message, which is not queued. \<open>receiveMessage\<close> times out with the empty string.
\<close>

lemma long_message_yields_empty:
  "round_trip [4095, 4095] (replicate 4095 (CHR ''a'')) = []"
proof -
  let ?m = "replicate 4095 (CHR ''a'')"
  have no_nl: "newline \<notin> set ?m" by (simp add: newline_def)
  have "splitMessages (takeWhile (\<lambda>c. c \<noteq> nul) ?m) = []"
    using find_char_absent [OF no_nl]
    by (simp add: nul_def splitMessages.simps [of ?m])
  then have first: "deliver m ?m = m" for m
    by (simp add: deliver_def)
  have "readerLoop m [4095, 4095] (?m @ [newline]) = m" for m
    by (simp add: BUFFER_SIZE_def Let_def first deliver_bare_newline)
  then show ?thesis
    by (simp add: round_trip_unfold receiveMessage_def IPCManager_def)
qed

text \<open>A message with a NUL byte is cut at that byte, and the cut frame has no newline.\<close>

lemma nul_message_yields_empty:
  "round_trip [4] [CHR ''a'', CHR 0x00, CHR ''b''] = []"
  by (simp add: round_trip_unfold BUFFER_SIZE_def Let_def deliver_def nul_def newline_def
      receiveMessage_def IPCManager_def splitMessages.simps [of "[CHR ''a'']"])

text \<open>
  The empty message is never queued; \<open>receiveMessage\<close> returns the empty string all the
  same, as the result of its timeout.
\<close>

lemma empty_message_round_trip: "round_trip ns [] = []"
proof -
  have "readerLoop m ns [newline] = m" for m
    by (induction ns arbitrary: m)
       (simp_all add: Let_def BUFFER_SIZE_def deliver_bare_newline readerLoop_drained)
  then show ?thesis
    by (simp add: round_trip_unfold receiveMessage_def IPCManager_def)
qed

text \<open>
  A non-empty message without newline and NUL byte, shorter than 4095 bytes, comes back
  unchanged when the first read of the peer finds the whole frame in the pipe.
\<close>

lemma short_message_round_trip:
  assumes "message \<noteq> []" and "newline \<notin> set message" and "nul \<notin> set message"
    and "length message < BUFFER_SIZE - 1" and "length message < n"
  shows "round_trip (n # ns) message = message"
proof -
  have "min n (min (BUFFER_SIZE - 1) (length (message @ [newline]))) = length message + 1"
    using assms(4,5) by simp
  then have "readerLoop m (n # ns) (message @ [newline]) = deliver m (message @ [newline])" for m
    by (simp add: Let_def readerLoop_drained)
  then show ?thesis
    using assms(1) deliver_frame [OF assms(2,3)]
    by (simp add: round_trip_unfold receiveMessage_def IPCManager_def)
qed

subsection \<open>Calling updatePositionPrices twice\<close>

lemma keyed_lookup:
  "list_all (\<lambda>(k, pos). symbol pos = k) xs \<Longrightarrow> map_find k xs = Some pos \<Longrightarrow> symbol pos = k"
  by (induction xs) (auto split: if_splits)

lemma keyed_assign:
  "list_all (\<lambda>(k, pos). symbol pos = k) xs \<Longrightarrow> symbol pos = k
   \<Longrightarrow> list_all (\<lambda>(k, pos). symbol pos = k) (map_assign k pos xs)"
  by (induction xs) auto

lemma keyed_erase:
  "list_all (\<lambda>(k, pos). symbol pos = k) xs
   \<Longrightarrow> list_all (\<lambda>(k, pos). symbol pos = k) (map_erase j xs)"
  by (induction xs) auto

lemma map_find_assign_none:
  "map_find k xs \<noteq> None \<Longrightarrow> (map_find j (map_assign k v xs) = None) = (map_find j xs = None)"
  by (cases "j = k") (simp_all add: map_find_assign_same map_find_assign_other)


lemma keys_assign: "set (map fst (map_assign k v xs)) = insert k (set (map fst xs))"
proof (induction xs)
  case Nil
  show ?case by simp
next
  case (Cons x xs)
  obtain k' v' where x: "x = (k', v')" by (cases x)
  show ?case
    unfolding x using Cons.IH by (simp add: insert_commute)
qed

lemma ordered_assign:
  "sorted_wrt (<) (map fst xs) \<Longrightarrow> sorted_wrt (<) (map fst (map_assign k v xs))"
proof (induction xs)
  case Nil
  then show ?case by simp
next
  case (Cons x xs)
  obtain k' v' where x: "x = (k', v')" by (cases x)
  from Cons.prems x have above: "\<forall>j \<in> set (map fst xs). k' < j"
    and rest: "sorted_wrt (<) (map fst xs)"
    by simp_all
  show ?case
  proof (cases "k = k'")
    case True
    with Cons.prems x show ?thesis by simp
  next
    case False
    show ?thesis
    proof (cases "k < k'")
      case True
      with above have "\<forall>j \<in> set (map fst xs). k < j" by auto
      with True False Cons.prems x show ?thesis by simp
    next
      case notless: False
      with False have "k' < k" by simp
      with above have "\<forall>j \<in> set (map fst (map_assign k v xs)). k' < j"
        unfolding keys_assign by simp
      with False notless x Cons.IH [OF rest] show ?thesis by simp
    qed
  qed
qed



lemma entries_erase: "(j, v) \<in> set (map_erase k xs) \<Longrightarrow> (j, v) \<in> set xs"
  by (induction xs) (auto split: if_splits)

lemma ordered_erase:
  "sorted_wrt (<) (map fst xs) \<Longrightarrow> sorted_wrt (<) (map fst (map_erase k xs))"
  by (induction xs) (force dest: entries_erase)+

text \<open>
  The constructor, \<open>initialize\<close> and \<open>updatePortfolio\<close>, the only writers of the positions
  map besides the price refresh, keep every position under its own symbol and the
  entries in key order.
\<close>

lemma keyed_TradingEngine: "keyed_by_symbol (TradingEngine m bal)"
  by (simp add: keyed_by_symbol_def TradingEngine_def)

lemma keyed_initialize: "keyed_by_symbol e \<Longrightarrow> keyed_by_symbol (initialize e db_positions)"
proof -
  have "list_all (\<lambda>(k, pos). symbol pos = k) xs
        \<Longrightarrow> list_all (\<lambda>(k, pos). symbol pos = k)
              (foldl (\<lambda>m pos. map_assign (symbol pos) pos m) xs ps)" for xs ps
    by (induction ps arbitrary: xs) (simp_all add: keyed_assign)
  then show "keyed_by_symbol e \<Longrightarrow> keyed_by_symbol (initialize e db_positions)"
    by (simp add: keyed_by_symbol_def initialize_def)
qed

lemma keyed_updatePortfolio:
  assumes "keyed_by_symbol e"
  shows "keyed_by_symbol (updatePortfolio e now ord)"
proof (cases "map_find (order_symbol ord) (positions (pf e))")
  case None
  with assms show ?thesis
    by (simp add: keyed_by_symbol_def updatePortfolio_def Let_def keyed_assign)
next
  case (Some pos)
  with assms have "symbol pos = order_symbol ord"
    by (auto simp: keyed_by_symbol_def dest: keyed_lookup)
  with assms Some show ?thesis
    by (simp add: keyed_by_symbol_def updatePortfolio_def Let_def keyed_assign keyed_erase)
qed

lemma ordered_TradingEngine: "ordered_keys (TradingEngine m bal)"
  by (simp add: ordered_keys_def TradingEngine_def)

lemma ordered_initialize: "ordered_keys e \<Longrightarrow> ordered_keys (initialize e db_positions)"
proof -
  have "sorted_wrt (<) (map fst xs)
        \<Longrightarrow> sorted_wrt (<) (map fst (foldl (\<lambda>m pos. map_assign (symbol pos) pos m) xs ps))"
    for xs ps
    by (induction ps arbitrary: xs) (simp_all add: ordered_assign)
  then show "ordered_keys e \<Longrightarrow> ordered_keys (initialize e db_positions)"
    by (simp add: ordered_keys_def initialize_def)
qed

lemma ordered_updatePortfolio: "ordered_keys e \<Longrightarrow> ordered_keys (updatePortfolio e now ord)"
  by (simp add: ordered_keys_def updatePortfolio_def Let_def ordered_assign ordered_erase
      split: option.split)






















lemma to_string_1: "to_string (Suc 0) = ''1''"
  by (simp add: to_string.simps digit_char_def)

lemma to_string_2: "to_string 2 = ''2''" "to_string (Suc (Suc 0)) = ''2''"
  by (simp_all add: to_string.simps digit_char_def)

lemmas upd_defs = updatePositionPrices_def visitPosition_def applyStopLoss_def
  applyTakeProfit_def quotient_ge_def

lemma holding_btc_eq:
  "holding_btc m = (TradingEngine m 10000)\<lparr>pf := \<lparr>cash_balance = 10000, total_value = 10000,
      positions = [(''BTC'', sample_position ''BTC'' 0.01 100000)]\<rparr>\<rparr>"
  by (simp add: holding_btc_def initialize_def TradingEngine_def sample_position_def)




text \<open>
  In paper mode, in a drawdown: the stop-loss of AAA fires in both calls and the drawdown
  check rejects its order both times. Both calls run to completion.
\<close>

lemma in_drawdown_eq:
  "in_drawdown = (TradingEngine PAPER 10000)\<lparr>pf := \<lparr>cash_balance = 5900, total_value = 10000,
      positions = [(''AAA'', sample_position ''AAA'' 1 100),
                   (''BBB'', (sample_position ''BBB'' 4 1000)\<lparr>current_price := 400\<rparr>)]\<rparr>\<rparr>"
  by (simp add: in_drawdown_def initialize_def TradingEngine_def sample_position_def Let_def)





text \<open>
  A call that does not run to completion: the engine holding BTC, in paper mode, with BTC
  at 97000. The stop-loss order is accepted and filled, and the BTC entry is erased while
  the loop is visiting it.
\<close>

lemma paper_first_value:
  "\<not> is_completed paper_first
   \<and> map fst (filled_orders (state_of paper_first)) = [''ORD_1_1'']
   \<and> map (order_symbol \<circ> snd) (filled_orders (state_of paper_first)) = [''BTC'']
   \<and> positions (pf (state_of paper_first)) = []
   \<and> pending_orders (state_of paper_first) = []"
  by (simp add: paper_first_def btc_drop_def holding_btc_eq TradingEngine_def sample_position_def
      upd_defs engine_defs Let_def to_string_1)

text \<open>
  A paper-mode second call can also place an order where the first placed none: the
  drawdown check, which rejected the AAA stop-loss while BBB still stood at its old
  price, accepts it once the first call has moved BBB up.
\<close>

lemma drawdown_first_value:
  "is_completed drawdown_first \<and> order_counter (state_of drawdown_first) = 0
   \<and> filled_orders (state_of drawdown_first) = []
   \<and> pending_orders (state_of drawdown_first) = []"
  by (simp add: drawdown_first_def recovery_def in_drawdown_eq TradingEngine_def
      sample_position_def upd_defs engine_defs Let_def)

lemma drawdown_second_value:
  "order_counter (state_of drawdown_second) = 1
   \<and> map (order_symbol \<circ> snd) (filled_orders (state_of drawdown_second)) = [''AAA'']"
  by (simp add: drawdown_second_def drawdown_first_def recovery_def in_drawdown_eq
      TradingEngine_def sample_position_def upd_defs engine_defs Let_def to_string_1 to_string_2)

end
